theory Spec2Isabelle
  imports Complex_Main "HOL-Library.Sublist"
begin

section \<open>The session state of \<open>MyGame\<close>\<close>

text \<open>
  The program is \<^verbatim>\<open>hello_pygame/my_game.py\<close> (class \<^verbatim>\<open>MyGame\<close>) and
  \<^verbatim>\<open>hello_pygame/main.py\<close> (function \<^verbatim>\<open>main\<close>).

  A click is the tuple \<^verbatim>\<open>(x, y, timestamp)\<close> of the source. Timestamps and the
  circle lifetime are Python floats; the model is parametric in their type \<open>'t\<close> and
  only asks for the two operations the source applies to them, subtraction and
  \<open><\<close>. Where a theorem needs more (that \<open><\<close> is irreflexive), its sort says so.
  Python's \<^verbatim>\<open>int\<close> is unbounded, hence \<open>int\<close>.
\<close>

type_synonym color = "int \<times> int \<times> int"

type_synonym 't click = "int \<times> int \<times> 't"

text \<open>
  The events \<^verbatim>\<open>pygame.event.get()\<close> delivers, as far as the loop tells them apart:
  \<^verbatim>\<open>event.type == pygame.QUIT\<close>, \<^verbatim>\<open>event.type == pygame.MOUSEBUTTONDOWN\<close> with its
  \<^verbatim>\<open>button\<close> and \<^verbatim>\<open>pos\<close>, and every other event type.
\<close>

datatype event = QUIT | MOUSEBUTTONDOWN int "int \<times> int" | OTHER

text \<open>
  What \<^verbatim>\<open>_draw\<close> puts on the surface: \<^verbatim>\<open>screen.fill(color)\<close>,
  \<^verbatim>\<open>pygame.draw.circle(screen, color, center, radius)\<close>, and the blit of the text
  rendered by \<^verbatim>\<open>font.render(text, True, color)\<close> into a rectangle given by its
  top-right corner. The surface is the list of commands since the last fill.
\<close>

datatype draw_cmd =
    Fill color
  | Circle color "int \<times> int" int
  | Blit "string \<times> int" string color "int \<times> int"

text \<open>
  The calls of \<^verbatim>\<open>run\<close> into the windowing library, in the order they are made:
  \<^verbatim>\<open>pygame.event.get()\<close> with the batch it returned,
  \<^verbatim>\<open>pygame.display.flip()\<close> with the surface it presents,
  \<^verbatim>\<open>clock.tick(n)\<close> and \<^verbatim>\<open>pygame.quit()\<close>.
\<close>

datatype io = EventGet "event list" | Flip "draw_cmd list" | Tick int | PygameQuit

record 't my_game =
  width :: int
  height :: int
  circle_lifetime :: 't
  screen :: "draw_cmd list"
  font :: "string \<times> int"
  clicks :: "'t click list"
  click_count :: int
  bg_color :: color
  text_color :: color
  circle_color :: color
  running :: bool
  logged :: "string list"

text \<open>
  \<^verbatim>\<open>MyGame.__init__(width, height, circle_lifetime)\<close>. The field \<open>logged\<close> holds the
  messages sent to \<^verbatim>\<open>self.logger\<close>, oldest first.
\<close>

definition MyGame_init :: "int \<Rightarrow> int \<Rightarrow> 't \<Rightarrow> 't my_game" where
  "MyGame_init w h lifetime =
     \<lparr> width = w, height = h, circle_lifetime = lifetime,
       screen = [], font = (''Arial'', 24),
       clicks = [], click_count = 0,
       bg_color = (30, 30, 30), text_color = (255, 255, 255), circle_color = (255, 0, 0),
       running = True, logged = [] \<rparr>"

text \<open>\<^verbatim>\<open>MyGame()\<close>: the defaults \<^verbatim>\<open>width=800, height=600, circle_lifetime=3.0\<close>.\<close>

definition MyGame_default :: "'t::numeral my_game" where
  "MyGame_default = MyGame_init 800 600 3"

subsection \<open>Formatting an integer, as an f-string does\<close>

definition digit_char :: "nat \<Rightarrow> char" where
  "digit_char d = ''0123456789'' ! d"

function str_nat :: "nat \<Rightarrow> string" where
  "str_nat n = (if n < 10 then [digit_char n] else str_nat (n div 10) @ [digit_char (n mod 10)])"
  by pat_completeness auto
termination
  by (relation "measure id") auto

declare str_nat.simps [simp del]

definition str_int :: "int \<Rightarrow> string" where
  "str_int i = (if i < 0 then CHR ''-'' # str_nat (nat (- i)) else str_nat (nat i))"

section \<open>The operations\<close>

text \<open>
  One pass of the body of \<^verbatim>\<open>for event in pygame.event.get()\<close>. The event comes with
  the value \<^verbatim>\<open>time.time()\<close> has while it is handled; only the left-click branch
  reads it.
\<close>

fun handle_event :: "event \<times> 't \<Rightarrow> 't my_game \<Rightarrow> 't my_game" where
  "handle_event (QUIT, now) g = g\<lparr>running := False\<rparr>"
| "handle_event (MOUSEBUTTONDOWN button (x, y), now) g =
     (if button = 1 then
        g\<lparr>clicks := clicks g @ [(x, y, now)],
          click_count := click_count g + 1,
          logged := logged g @
            [''Left click registered at: ('' @ str_int x @ '', '' @ str_int y @ '')'']\<rparr>
      else if button = 3 then
        g\<lparr>clicks := [],
          click_count := 0,
          logged := logged g @ [''Right click detected, state reset.'']\<rparr>
      else g)"
| "handle_event (OTHER, now) g = g"

text \<open>The whole \<^verbatim>\<open>for\<close> loop over one batch, in arrival order.\<close>

fun handle_events :: "(event \<times> 't) list \<Rightarrow> 't my_game \<Rightarrow> 't my_game" where
  "handle_events [] g = g"
| "handle_events (e # es) g = handle_events es (handle_event e g)"

text \<open>
  \<^verbatim>\<open>_update_circles\<close>, with \<open>current_time\<close> the value of \<^verbatim>\<open>time.time()\<close>. The list
  comprehension of the source is written as one.
\<close>

definition update_circles :: "'t::{minus,ord} \<Rightarrow> 't my_game \<Rightarrow> 't my_game" where
  "update_circles current_time g =
     g\<lparr>clicks := [(x, y, t). (x, y, t) \<leftarrow> clicks g, current_time - t < circle_lifetime g]\<rparr>"

text \<open>\<^verbatim>\<open>_draw\<close>: fill, one circle of radius 20 per click, the counter text.\<close>

definition draw :: "'t my_game \<Rightarrow> 't my_game" where
  "draw g =
     g\<lparr>screen :=
         [Fill (bg_color g)]
         @ map (\<lambda>(x, y, _). Circle (circle_color g) (x, y) 20) (clicks g)
         @ [Blit (font g) (''Clicks: '' @ str_int (click_count g)) (text_color g)
              (width g - 10, 10)]\<rparr>"

text \<open>
  One iteration of \<^verbatim>\<open>while self.running\<close>. A batch is what the environment gives
  the iteration: the events of \<^verbatim>\<open>pygame.event.get()\<close>, each with its clock reading,
  and the clock reading of \<^verbatim>\<open>_update_circles\<close>.
\<close>

type_synonym 't batch = "(event \<times> 't) list \<times> 't"

definition loop_body :: "'t::{minus,ord} batch \<Rightarrow> 't my_game \<Rightarrow> 't my_game \<times> io list" where
  "loop_body b g =
     (let g1 = handle_events (fst b) g;
          g2 = update_circles (snd b) g1;
          g3 = draw g2
      in (g3, [EventGet (map fst (fst b)), Flip (screen g3), Tick 60]))"

text \<open>
  The \<^verbatim>\<open>while\<close> loop and the \<^verbatim>\<open>pygame.quit()\<close> after it. The loop runs for as
  long as no quit event arrives, so the batches are the fuel: \<open>None\<close> says that the
  loop was still running when they ran out.
\<close>

fun run_loop :: "'t::{minus,ord} batch list \<Rightarrow> 't my_game \<Rightarrow> ('t my_game \<times> io list) option" where
  "run_loop [] g = (if running g then None else Some (g, [PygameQuit]))"
| "run_loop (b # bs) g =
     (if running g then
        (let (g', tr) = loop_body b g
         in map_option (\<lambda>(g'', tr'). (g'', tr @ tr')) (run_loop bs g'))
      else Some (g, [PygameQuit]))"

text \<open>\<^verbatim>\<open>run\<close>: the log line, then the loop.\<close>

definition run :: "'t::{minus,ord} batch list \<Rightarrow> 't my_game \<Rightarrow> ('t my_game \<times> io list) option" where
  "run bs g = run_loop bs (g\<lparr>logged := logged g @ [''Running MyGame'']\<rparr>)"

section \<open>The command-line entry point\<close>

text \<open>
  \<^verbatim>\<open>main\<close> of \<^verbatim>\<open>main.py\<close>. The two calls of its \<^verbatim>\<open>try\<close> block, \<^verbatim>\<open>setup_logger()\<close>
  and \<^verbatim>\<open>app()\<close>, belong to libraries; each is given by how it ends: \<open>None\<close> when
  it returns, \<open>Some e\<close> when it raises \<open>e\<close>. An exception is an instance of
  \<^verbatim>\<open>UserNotificationException\<close> with its message, or any other exception.
  The result is the list of messages sent to \<^verbatim>\<open>logger.error\<close> and either the
  returned exit code (\<open>Inr\<close>) or the exception that leaves \<^verbatim>\<open>main\<close> (\<open>Inl\<close>).
\<close>

datatype exn = UserNotificationException string | OtherException string

definition try_block :: "exn option \<Rightarrow> exn option \<Rightarrow> exn option" where
  "try_block setup_logger app = (case setup_logger of Some e \<Rightarrow> Some e | None \<Rightarrow> app)"

definition main :: "exn option \<Rightarrow> exn option \<Rightarrow> string list \<times> (exn + int)" where
  "main setup_logger app =
     (case try_block setup_logger app of
        None \<Rightarrow> ([], Inr 0)
      | Some (UserNotificationException msg) \<Rightarrow> ([msg], Inr 1)
      | Some (OtherException name) \<Rightarrow> ([], Inl (OtherException name)))"

section \<open>Steps of a session\<close>

text \<open>
  The three things the loop does to the session, as one step type: handling one event,
  \<^verbatim>\<open>_update_circles\<close> and \<^verbatim>\<open>_draw\<close>. An iteration of the loop is the steps of its
  batch, then an expiration, then a draw (\<open>loop_body_steps\<close> below).
\<close>

datatype 't step = Handle "event \<times> 't" | Update 't | Draw

fun apply_step :: "'t::{minus,ord} step \<Rightarrow> 't my_game \<Rightarrow> 't my_game" where
  "apply_step (Handle e) g = handle_event e g"
| "apply_step (Update now) g = update_circles now g"
| "apply_step Draw g = draw g"

fun apply_steps :: "'t::{minus,ord} step list \<Rightarrow> 't my_game \<Rightarrow> 't my_game" where
  "apply_steps [] g = g"
| "apply_steps (s # ss) g = apply_steps ss (apply_step s g)"

fun is_left_click :: "event \<Rightarrow> bool" where
  "is_left_click (MOUSEBUTTONDOWN button p) = (button = 1)"
| "is_left_click _ = False"

fun is_right_click :: "event \<Rightarrow> bool" where
  "is_right_click (MOUSEBUTTONDOWN button p) = (button = 3)"
| "is_right_click _ = False"

fun handled :: "'t step list \<Rightarrow> event list" where
  "handled [] = []"
| "handled (Handle e # ss) = fst e # handled ss"
| "handled (_ # ss) = handled ss"

fun is_Flip :: "io \<Rightarrow> bool" where
  "is_Flip (Flip s) = True"
| "is_Flip _ = False"

fun is_EventGet :: "io \<Rightarrow> bool" where
  "is_EventGet (EventGet es) = True"
| "is_EventGet _ = False"

text \<open>
  The calls made after the first \<^verbatim>\<open>pygame.event.get()\<close> whose batch holds a quit
  event; \<open>None\<close> when no batch of the trace holds one.
\<close>

fun after_quit :: "io list \<Rightarrow> io list option" where
  "after_quit [] = None"
| "after_quit (EventGet es # tr) = (if QUIT \<in> set es then Some tr else after_quit tr)"
| "after_quit (_ # tr) = after_quit tr"

text \<open>
  The session after the loop body has run once for each batch of a list, in order.
\<close>

fun iterations :: "'t::{minus,ord} batch list \<Rightarrow> 't my_game \<Rightarrow> 't my_game" where
  "iterations [] g = g"
| "iterations (p # ps) g = iterations ps (fst (loop_body p g))"

section \<open>Facts about the operations\<close>

subsection \<open>Expiration\<close>

lemma comprehension_filter:
  "[(x, y, t). (x, y, t) \<leftarrow> xs, P t] = filter (\<lambda>(x, y, t). P t) xs"
  by (induction xs) auto

lemma clicks_update_circles:
  "clicks (update_circles now g)
     = filter (\<lambda>(x, y, t). now - t < circle_lifetime g) (clicks g)"
  by (simp add: update_circles_def comprehension_filter)

lemma update_circles_fields:
  "click_count (update_circles now g) = click_count g"
  "running (update_circles now g) = running g"
  "width (update_circles now g) = width g"
  "height (update_circles now g) = height g"
  "circle_lifetime (update_circles now g) = circle_lifetime g"
  by (simp_all add: update_circles_def)

lemma draw_fields:
  "click_count (draw g) = click_count g"
  "running (draw g) = running g"
  "clicks (draw g) = clicks g"
  by (simp_all add: draw_def)

subsection \<open>Event handling\<close>


lemma running_handle_event:
  "running (handle_event e g) = (running g \<and> fst e \<noteq> QUIT)"
  by (cases "(e, g)" rule: handle_event.cases) auto

lemma running_handle_events:
  "running (handle_events es g) = (running g \<and> QUIT \<notin> fst ` set es)"
  by (induction es arbitrary: g) (auto simp: running_handle_event)

lemma click_count_handle_event:
  "\<not> is_right_click (fst e) \<Longrightarrow>
     click_count (handle_event e g) = click_count g + (if is_left_click (fst e) then 1 else 0)"
  by (cases "(e, g)" rule: handle_event.cases) auto

subsection \<open>Steps\<close>

lemma apply_steps_append:
  "apply_steps (ss @ ts) g = apply_steps ts (apply_steps ss g)"
  by (induction ss arbitrary: g) simp_all

lemma handle_events_steps:
  fixes g :: "'t::{minus,ord} my_game"
  shows "handle_events es g = apply_steps (map Handle es) g"
  by (induction es arbitrary: g) simp_all

lemma handled_map_Handle: "handled (map Handle es) = map fst es"
  by (induction es) simp_all

text \<open>An iteration of the loop is a run of steps: its events, an expiration, a draw.\<close>

lemma loop_body_steps:
  "fst (loop_body b g) = apply_steps (map Handle (fst b) @ [Update (snd b), Draw]) g"
  by (simp add: loop_body_def Let_def apply_steps_append handle_events_steps)

lemma click_count_apply_steps:
  fixes g :: "'t::{minus,ord} my_game"
  shows "\<forall>e \<in> set (handled ss). \<not> is_right_click e \<Longrightarrow>
     click_count (apply_steps ss g)
       = click_count g + int (length (filter is_left_click (handled ss)))"
proof (induction ss arbitrary: g)
  case Nil
  then show ?case by simp
next
  case (Cons s ss)
  then show ?case
    by (cases s) (simp_all add: click_count_handle_event update_circles_fields draw_fields)
qed

lemma length_le_count_step:
  fixes g :: "'t::{minus,ord} my_game"
  shows "int (length (clicks g)) \<le> click_count g \<Longrightarrow>
    int (length (clicks (apply_step s g))) \<le> click_count (apply_step s g)"
proof (cases s)
  case (Handle e)
  assume "int (length (clicks g)) \<le> click_count g"
  then show ?thesis unfolding Handle
    by (cases "(e, g)" rule: handle_event.cases) auto
next
  case (Update now)
  assume a: "int (length (clicks g)) \<le> click_count g"
  have "length (clicks (update_circles now g)) \<le> length (clicks g)"
    by (simp add: clicks_update_circles)
  with a show ?thesis unfolding Update
    by (simp add: update_circles_fields)
next
  case Draw
  assume "int (length (clicks g)) \<le> click_count g"
  then show ?thesis unfolding Draw by (simp add: draw_fields)
qed

lemma length_le_count_steps:
  fixes g :: "'t::{minus,ord} my_game"
  shows "int (length (clicks g)) \<le> click_count g \<Longrightarrow>
    int (length (clicks (apply_steps ss g))) \<le> click_count (apply_steps ss g)"
  by (induction ss arbitrary: g) (simp_all add: length_le_count_step del: apply_step.simps)

subsection \<open>The loop\<close>

lemma run_loop_stopped: "\<not> running g \<Longrightarrow> run_loop bs g = Some (g, [PygameQuit])"
  by (cases bs) simp_all

lemma running_loop_body:
  "running (fst (loop_body b g)) = (running g \<and> QUIT \<notin> fst ` set (fst b))"
  by (simp add: loop_body_def Let_def draw_fields update_circles_fields running_handle_events)

lemma snd_loop_body:
  "snd (loop_body b g)
     = [EventGet (map fst (fst b)), Flip (screen (fst (loop_body b g))), Tick 60]"
  by (simp add: loop_body_def Let_def)

lemma run_loop_running:
  "running g \<Longrightarrow> run_loop (b # bs) g
     = map_option (\<lambda>(g'', tr'). (g'', snd (loop_body b g) @ tr'))
         (run_loop bs (fst (loop_body b g)))"
  by (simp add: split_def Let_def)

lemma fst_loop_body:
  "fst (loop_body b g) = draw (update_circles (snd b) (handle_events (fst b) g))"
  by (simp add: loop_body_def Let_def)

text \<open>No operation of the loop changes the configured lifetime.\<close>

lemma circle_lifetime_handle_event:
  "circle_lifetime (handle_event e g) = circle_lifetime g"
  by (cases "(e, g)" rule: handle_event.cases) auto

lemma circle_lifetime_handle_events:
  "circle_lifetime (handle_events es g) = circle_lifetime g"
  by (induction es arbitrary: g) (simp_all add: circle_lifetime_handle_event)

lemma circle_lifetime_draw: "circle_lifetime (draw g) = circle_lifetime g"
  by (simp add: draw_def)

lemma circle_lifetime_loop_body:
  "circle_lifetime (fst (loop_body b g)) = circle_lifetime g"
  by (simp add: fst_loop_body circle_lifetime_draw update_circles_fields
      circle_lifetime_handle_events)

lemma circle_lifetime_iterations:
  "circle_lifetime (iterations ps g) = circle_lifetime g"
  by (induction ps arbitrary: g) (simp_all add: circle_lifetime_loop_body)

text \<open>
  The loop from a running state, over batches of which \<open>b\<close> is the first with a quit
  event: it returns the state that the body of \<open>b\<close>'s iteration leaves. By induction
  on the batches before \<open>b\<close>.
\<close>

lemma run_loop_until_quit_state:
  assumes "running g"
    and "\<forall>p \<in> set pre. QUIT \<notin> fst ` set (fst p)"
    and "QUIT \<in> fst ` set (fst b)"
  shows "\<exists>tr. run_loop (pre @ b # rest) g = Some (fst (loop_body b (iterations pre g)), tr)
           \<and> after_quit tr
               = Some [Flip (screen (fst (loop_body b (iterations pre g)))), Tick 60, PygameQuit]
           \<and> length (filter is_Flip tr) = length pre + 1
           \<and> length (filter is_EventGet tr) = length pre + 1"
  using assms
proof (induction pre arbitrary: g)
  case Nil
  let ?g1 = "fst (loop_body b g)"
  have stop: "\<not> running ?g1"
    using Nil.prems(3) by (simp add: running_loop_body)
  have "run_loop (b # rest) g = Some (?g1, snd (loop_body b g) @ [PygameQuit])"
    using Nil.prems(1)
    by (simp add: run_loop_running run_loop_stopped [OF stop] del: run_loop.simps)
  moreover have "after_quit (snd (loop_body b g) @ [PygameQuit])
      = Some [Flip (screen ?g1), Tick 60, PygameQuit]"
    using Nil.prems(3) by (simp add: snd_loop_body)
  ultimately show ?case
    by (simp add: snd_loop_body)
next
  case (Cons p ps)
  let ?g1 = "fst (loop_body p g)"
  let ?g' = "fst (loop_body b (iterations ps ?g1))"
  have noquit: "QUIT \<notin> fst ` set (fst p)"
    using Cons.prems(2) by simp
  have go: "running ?g1"
    using Cons.prems(1) noquit by (simp add: running_loop_body)
  have "\<forall>q \<in> set ps. QUIT \<notin> fst ` set (fst q)"
    using Cons.prems(2) by simp
  from Cons.IH [OF go this Cons.prems(3)]
  obtain tr where r: "run_loop (ps @ b # rest) ?g1 = Some (?g', tr)"
    and aq: "after_quit tr = Some [Flip (screen ?g'), Tick 60, PygameQuit]"
    and nf: "length (filter is_Flip tr) = length ps + 1"
    and ne: "length (filter is_EventGet tr) = length ps + 1"
    by blast
  have "run_loop ((p # ps) @ b # rest) g = Some (?g', snd (loop_body p g) @ tr)"
    using Cons.prems(1) r by (simp add: run_loop_running del: run_loop.simps)
  moreover have "after_quit (snd (loop_body p g) @ tr) = after_quit tr"
    using noquit by (simp add: snd_loop_body)
  ultimately show ?case
    using aq nf ne by (simp add: snd_loop_body)
qed

section \<open>The claims\<close>

text \<open>
  Claim C1. The expiration step, for any list of clicks and any current time \<open>now\<close>,
  keeps exactly the clicks with \<open>now - created_at < lifetime\<close>, in their order: the
  new list is the old one filtered by that test, hence a subsequence of it. The
  inequality is strict: a click whose age equals the lifetime is not in the result.
\<close>

theorem update_circles_keeps_exactly:
  fixes now :: "'t::{minus,preorder}"
  shows "clicks (update_circles now g)
           = filter (\<lambda>(x, y, t). now - t < circle_lifetime g) (clicks g)
       \<and> subseq (clicks (update_circles now g)) (clicks g)
       \<and> (\<forall>x y t. now - t = circle_lifetime g
             \<longrightarrow> (x, y, t) \<notin> set (clicks (update_circles now g)))"
  by (simp add: clicks_update_circles)

text \<open>
  With lifetime 3 and clicks created at 0 and at 2.9, the expiration at time 3 removes
  the first, whose age is the lifetime, and keeps the second.
\<close>

theorem update_circles_keeps_exactly_witness:
  "clicks (update_circles 3 (MyGame_default\<lparr>clicks := [(10, 10, 0), (20, 20, 2.9::real)]\<rparr>))
     = [(20, 20, 2.9)]
   \<and> (3::real) - 0
     = circle_lifetime (MyGame_default\<lparr>clicks := [(10, 10, 0), (20, 20, 2.9::real)]\<rparr>)
   \<and> (10, 10, 0) \<notin> set (clicks (update_circles 3
         (MyGame_default\<lparr>clicks := [(10, 10, 0), (20, 20, 2.9::real)]\<rparr>)))"
  using update_circles_keeps_exactly
    [of "3::real" "MyGame_default\<lparr>clicks := [(10, 10, 0), (20, 20, 2.9::real)]\<rparr>"]
  by (simp add: MyGame_default_def MyGame_init_def)

text \<open>
  Claim C2. From the initial state, a sequence of events with no right-click leaves
  \<open>click_count\<close> equal to the number of left-clicks in it. This holds for the events of
  one batch (\<open>handle_events\<close>) and for events with expirations and draws between them
  (\<open>apply_steps\<close>). In any state, a left-click at \<open>(x, y)\<close> handled at time \<open>now\<close>
  appends \<open>(x, y, now)\<close> to the end of \<open>clicks\<close> and adds one to \<open>click_count\<close>.
\<close>

theorem left_clicks_counted:
  fixes g :: "'t::{minus,ord} my_game"
  shows "((\<forall>e \<in> set es. \<not> is_right_click (fst e)) \<longrightarrow>
           click_count (handle_events es (MyGame_init w h lifetime :: 't my_game))
             = int (length (filter (\<lambda>e. is_left_click (fst e)) es)))
    \<and> ((\<forall>e \<in> set (handled ss). \<not> is_right_click e) \<longrightarrow>
           click_count (apply_steps ss (MyGame_init w h lifetime :: 't my_game))
             = int (length (filter is_left_click (handled ss))))
    \<and> clicks (handle_event (MOUSEBUTTONDOWN 1 (x, y), now) g) = clicks g @ [(x, y, now)]
    \<and> click_count (handle_event (MOUSEBUTTONDOWN 1 (x, y), now) g) = click_count g + 1"
proof -
  have init: "click_count (MyGame_init w h lifetime :: 't my_game) = 0"
    by (simp add: MyGame_init_def)
  have steps: "click_count (apply_steps ss (MyGame_init w h lifetime :: 't my_game))
             = int (length (filter is_left_click (handled ss)))"
    if "\<forall>e \<in> set (handled ss). \<not> is_right_click e" for ss :: "'t step list"
    using click_count_apply_steps [OF that, of "MyGame_init w h lifetime"] init by simp
  have "click_count (handle_events es (MyGame_init w h lifetime :: 't my_game))
             = int (length (filter (\<lambda>e. is_left_click (fst e)) es))"
    if "\<forall>e \<in> set es. \<not> is_right_click (fst e)"
  proof -
    from that have "\<forall>e \<in> set (handled (map Handle es :: 't step list)). \<not> is_right_click e"
      by (simp add: handled_map_Handle)
    from steps [OF this] show ?thesis
      by (simp add: handle_events_steps handled_map_Handle filter_map o_def)
  qed
  with steps show ?thesis by simp
qed

text \<open>
  Two left-clicks among a middle-button press, a quit and another event: the count
  is 2, in one batch and across two iterations.
\<close>

theorem left_clicks_counted_witness:
  "list_all (\<lambda>e. \<not> is_right_click (fst e))
      [(MOUSEBUTTONDOWN 1 (10, 10), 0::real), (OTHER, 1), (MOUSEBUTTONDOWN 2 (5, 5), 1),
       (QUIT, 2), (MOUSEBUTTONDOWN 1 (20, 20), 2.9)]
   \<and> click_count (handle_events
      [(MOUSEBUTTONDOWN 1 (10, 10), 0::real), (OTHER, 1), (MOUSEBUTTONDOWN 2 (5, 5), 1),
       (QUIT, 2), (MOUSEBUTTONDOWN 1 (20, 20), 2.9)] (MyGame_init 800 600 3)) = 2
   \<and> click_count (apply_steps
      [Handle (MOUSEBUTTONDOWN 1 (10, 10), 0::real), Update 1, Draw,
       Handle (MOUSEBUTTONDOWN 1 (20, 20), 2.9), Update 3.1, Draw] (MyGame_init 800 600 3)) = 2"
  using left_clicks_counted [where 't = real, of
      "[(MOUSEBUTTONDOWN 1 (10, 10), 0), (OTHER, 1), (MOUSEBUTTONDOWN 2 (5, 5), 1),
       (QUIT, 2), (MOUSEBUTTONDOWN 1 (20, 20), 2.9)]" 800 600 3
      "[Handle (MOUSEBUTTONDOWN 1 (10, 10), 0), Update 1, Draw,
       Handle (MOUSEBUTTONDOWN 1 (20, 20), 2.9), Update 3.1, Draw]"]
  by (simp add: MyGame_init_def update_circles_def draw_def)

text \<open>
  Claim C3. Handling a right-click (button 3), at any position, at any time and in any
  state, leaves \<open>clicks\<close> empty and \<open>click_count\<close> equal to 0.
\<close>

theorem right_click_resets:
  "clicks (handle_event (MOUSEBUTTONDOWN 3 p, now) g) = []
   \<and> click_count (handle_event (MOUSEBUTTONDOWN 3 p, now) g) = 0"
  by (cases p) simp

text \<open>
  Claim C4, as the code has it. When \<^verbatim>\<open>run\<close> starts in a running state and the
  first batch that holds a quit event is \<open>b\<close>, it returns with \<open>running\<close> false,
  whatever batches would follow. The iteration that drains \<open>b\<close> is carried out in
  full: with \<open>g0\<close> the session after the earlier iterations, the state returned is
  the one left by handling the events of \<open>b\<close>, then the expiration step at the
  clock reading of \<open>b\<close>, then the draw. So the clicks of the final state are those
  left by the event handling that are younger than the configured lifetime, and the
  surface presented last shows exactly them. After the \<^verbatim>\<open>pygame.event.get()\<close> that
  delivered the quit event, the calls are exactly one \<^verbatim>\<open>flip\<close> (the draw of that same
  iteration), one \<^verbatim>\<open>tick\<close> and \<^verbatim>\<open>pygame.quit()\<close>: one draw still happens after the
  quit event is handled, none after that iteration, and no further batch is polled.
\<close>

theorem quit_exits_after_iteration:
  fixes g :: "'t::{minus,ord} my_game"
  assumes "running g"
    and "\<forall>p \<in> set pre. QUIT \<notin> fst ` set (fst p)"
    and "QUIT \<in> fst ` set (fst b)"
  shows "\<exists>g0 g' tr.
           g0 = iterations pre (g\<lparr>logged := logged g @ [''Running MyGame'']\<rparr>)
           \<and> g' = draw (update_circles (snd b) (handle_events (fst b) g0))
           \<and> run (pre @ b # rest) g = Some (g', tr)
           \<and> \<not> running g'
           \<and> circle_lifetime g' = circle_lifetime g
           \<and> clicks g' = filter (\<lambda>(x, y, t). snd b - t < circle_lifetime g)
                            (clicks (handle_events (fst b) g0))
           \<and> (\<forall>c \<in> set (clicks g'). snd b - snd (snd c) < circle_lifetime g)
           \<and> screen g' = [Fill (bg_color g')]
                 @ map (\<lambda>(x, y, _). Circle (circle_color g') (x, y) 20) (clicks g')
                 @ [Blit (font g') (''Clicks: '' @ str_int (click_count g')) (text_color g')
                      (width g' - 10, 10)]
           \<and> after_quit tr = Some [Flip (screen g'), Tick 60, PygameQuit]
           \<and> length (filter is_Flip tr) = length pre + 1
           \<and> length (filter is_EventGet tr) = length pre + 1"
proof -
  let ?g0 = "iterations pre (g\<lparr>logged := logged g @ [''Running MyGame'']\<rparr>)"
  let ?h = "handle_events (fst b) ?g0"
  let ?g' = "draw (update_circles (snd b) ?h)"
  have run0: "running (g\<lparr>logged := logged g @ [''Running MyGame'']\<rparr>)"
    using assms(1) by simp
  from run_loop_until_quit_state [OF run0 assms(2) assms(3), of rest]
  obtain tr where r: "run (pre @ b # rest) g = Some (?g', tr)"
    and aq: "after_quit tr = Some [Flip (screen ?g'), Tick 60, PygameQuit]"
    and nf: "length (filter is_Flip tr) = length pre + 1"
    and ne: "length (filter is_EventGet tr) = length pre + 1"
    unfolding run_def fst_loop_body by blast
  have stop: "\<not> running ?g'"
    using assms(3) by (simp add: draw_fields update_circles_fields running_handle_events)
  have life: "circle_lifetime ?g' = circle_lifetime g"
    by (simp add: circle_lifetime_draw update_circles_fields circle_lifetime_handle_events
        circle_lifetime_iterations)
  have life_h: "circle_lifetime ?h = circle_lifetime g"
    by (simp add: circle_lifetime_handle_events circle_lifetime_iterations)
  have cl: "clicks ?g' = filter (\<lambda>(x, y, t). snd b - t < circle_lifetime g) (clicks ?h)"
    by (simp add: draw_fields clicks_update_circles life_h)
  have fresh: "\<forall>c \<in> set (clicks ?g'). snd b - snd (snd c) < circle_lifetime g"
    unfolding cl by auto
  have scr: "screen ?g' = [Fill (bg_color ?g')]
                 @ map (\<lambda>(x, y, _). Circle (circle_color ?g') (x, y) 20) (clicks ?g')
                 @ [Blit (font ?g') (''Clicks: '' @ str_int (click_count ?g')) (text_color ?g')
                      (width ?g' - 10, 10)]"
    by (simp add: draw_def)
  from r stop life cl fresh scr aq nf ne show ?thesis
    by blast
qed

text \<open>
  The default session (lifetime 3) with a left-click at time 0 in the first batch, a
  quit event followed by a left-click at time 10 in the second, and a third batch that
  is never polled. The iteration of the quit batch expires the first click, which is 10
  old, keeps the click made after the quit event, and presents a frame with that one
  circle; then come its tick and \<^verbatim>\<open>pygame.quit()\<close>.
\<close>

theorem quit_exits_after_iteration_witness:
  "running (MyGame_default :: real my_game)
   \<and> list_all (\<lambda>p. QUIT \<notin> fst ` set (fst p)) [([(MOUSEBUTTONDOWN 1 (10, 10), 0::real)], 0)]
   \<and> QUIT \<in> fst ` set (fst ([(QUIT, 10::real), (MOUSEBUTTONDOWN 1 (30, 30), 10)], 10::real))
   \<and> run ([([(MOUSEBUTTONDOWN 1 (10, 10), 0)], 0)]
            @ ([(QUIT, 10), (MOUSEBUTTONDOWN 1 (30, 30), 10)], 10)
            # [([(MOUSEBUTTONDOWN 1 (20, 20), 11)], 11)])
        (MyGame_default :: real my_game)
     = Some (MyGame_default
              \<lparr>screen := [Fill (30, 30, 30), Circle (255, 0, 0) (30, 30) 20,
                          Blit (''Arial'', 24) ''Clicks: 2'' (255, 255, 255) (790, 10)],
                clicks := [(30, 30, 10)],
                click_count := 2,
                running := False,
                logged := [''Running MyGame'', ''Left click registered at: (10, 10)'',
                           ''Left click registered at: (30, 30)'']\<rparr>,
         [EventGet [MOUSEBUTTONDOWN 1 (10, 10)],
          Flip [Fill (30, 30, 30), Circle (255, 0, 0) (10, 10) 20,
                Blit (''Arial'', 24) ''Clicks: 1'' (255, 255, 255) (790, 10)],
          Tick 60,
          EventGet [QUIT, MOUSEBUTTONDOWN 1 (30, 30)],
          Flip [Fill (30, 30, 30), Circle (255, 0, 0) (30, 30) 20,
                Blit (''Arial'', 24) ''Clicks: 2'' (255, 255, 255) (790, 10)],
          Tick 60,
          PygameQuit])"
  using quit_exits_after_iteration
    [of "MyGame_default :: real my_game" "[([(MOUSEBUTTONDOWN 1 (10, 10), 0)], 0)]"
        "([(QUIT, 10), (MOUSEBUTTONDOWN 1 (30, 30), 10)], 10)"
        "[([(MOUSEBUTTONDOWN 1 (20, 20), 11)], 11)]"]
  by (simp add: run_def MyGame_default_def MyGame_init_def loop_body_def update_circles_def
      draw_def str_int_def str_nat.simps digit_char_def)

text \<open>
  Claim C4 as the specification words it (no draw after the quit event is handled)
  fails: when the only event of the first batch is a quit event, the loop still
  presents a frame after \<^verbatim>\<open>pygame.event.get()\<close> returned it, so what follows the
  quit batch in the trace is not \<^verbatim>\<open>pygame.quit()\<close> alone.
\<close>

theorem quit_draws_once_more_counterexample:
  "run [([(QUIT, 0)], 0)] (MyGame_default :: real my_game)
     = Some (MyGame_default
               \<lparr>screen := [Fill (30, 30, 30),
                           Blit (''Arial'', 24) ''Clicks: 0'' (255, 255, 255) (790, 10)],
                 running := False,
                 logged := [''Running MyGame'']\<rparr>,
             [EventGet [QUIT],
              Flip [Fill (30, 30, 30),
                    Blit (''Arial'', 24) ''Clicks: 0'' (255, 255, 255) (790, 10)],
              Tick 60, PygameQuit])
   \<and> after_quit [EventGet [QUIT],
              Flip [Fill (30, 30, 30),
                    Blit (''Arial'', 24) ''Clicks: 0'' (255, 255, 255) (790, 10)],
              Tick 60, PygameQuit] \<noteq> Some [PygameQuit]"
  by (simp add: run_def MyGame_default_def MyGame_init_def loop_body_def update_circles_def
      draw_def str_int_def str_nat.simps digit_char_def)

text \<open>
  Claim C5. The expiration step is idempotent: applied twice with the same current
  time, it gives the state that one application gives.
\<close>

theorem update_circles_idempotent:
  "update_circles now (update_circles now g) = update_circles now g"
  by (simp add: update_circles_def comprehension_filter)

text \<open>
  Claim C6. Over every step of the session, \<open>click_count\<close> does not decrease, except
  when a right-click is handled, and then it is 0: handling a right-click gives 0,
  handling any other event gives a count at least the old one, and the expiration
  step and the draw leave the count as it is.
\<close>

theorem click_count_monotone:
  fixes g :: "'t::{minus,ord} my_game"
  shows "(is_right_click e \<longrightarrow> click_count (apply_step (Handle (e, now)) g) = 0)
   \<and> (\<not> is_right_click e \<longrightarrow> click_count g \<le> click_count (apply_step (Handle (e, now)) g))
   \<and> click_count (apply_step (Update now) g) = click_count g
   \<and> click_count (apply_step Draw g) = click_count g"
  by (cases "((e, now), g)" rule: handle_event.cases)
     (simp_all add: update_circles_fields draw_fields)

text \<open>With a count of 2: a right-click gives 0, a left-click gives at least 2.\<close>

theorem click_count_monotone_witness:
  "is_right_click (MOUSEBUTTONDOWN 3 (7, 7))
   \<and> click_count (apply_step (Handle (MOUSEBUTTONDOWN 3 (7, 7), 5::real))
        (MyGame_default\<lparr>clicks := [(20, 20, 2.9)], click_count := 2\<rparr>)) = 0
   \<and> \<not> is_right_click (MOUSEBUTTONDOWN 1 (7, 7))
   \<and> (2::int) \<le> click_count (apply_step (Handle (MOUSEBUTTONDOWN 1 (7, 7), 5::real))
        (MyGame_default\<lparr>clicks := [(20, 20, 2.9)], click_count := 2\<rparr>))"
  using click_count_monotone [of "MOUSEBUTTONDOWN 3 (7, 7)" "5::real"
          "MyGame_default\<lparr>clicks := [(20, 20, 2.9)], click_count := 2\<rparr>"]
        click_count_monotone [of "MOUSEBUTTONDOWN 1 (7, 7)" "5::real"
          "MyGame_default\<lparr>clicks := [(20, 20, 2.9)], click_count := 2\<rparr>"]
  by simp

text \<open>
  Claim C7, in terms of how the two calls of the \<^verbatim>\<open>try\<close> block end. \<^verbatim>\<open>main\<close>
  returns 0 exactly when \<^verbatim>\<open>setup_logger()\<close> and \<^verbatim>\<open>app()\<close> both return. It returns
  1 exactly when a \<^verbatim>\<open>UserNotificationException\<close> is raised: by \<^verbatim>\<open>setup_logger()\<close>
  (then \<^verbatim>\<open>app()\<close> is not called and how it would end does not matter), or by
  \<^verbatim>\<open>app()\<close> after \<^verbatim>\<open>setup_logger()\<close> returned; the message is logged. Any other
  exception, raised by either call, leaves \<^verbatim>\<open>main\<close> and nothing is logged.
\<close>

theorem main_exit_codes:
  "main None None = ([], Inr 0)
   \<and> (snd (main s a) = Inr 0 \<longleftrightarrow> s = None \<and> a = None)
   \<and> (snd (main s a) = Inr 1 \<longleftrightarrow>
        (\<exists>msg. s = Some (UserNotificationException msg))
        \<or> (s = None \<and> (\<exists>msg. a = Some (UserNotificationException msg))))
   \<and> (\<forall>msg. s = Some (UserNotificationException msg) \<longrightarrow> main s a = ([msg], Inr 1))
   \<and> (\<forall>msg. s = None \<and> a = Some (UserNotificationException msg) \<longrightarrow> main s a = ([msg], Inr 1))
   \<and> (\<forall>name. s = Some (OtherException name) \<longrightarrow> main s a = ([], Inl (OtherException name)))
   \<and> (\<forall>name. s = None \<and> a = Some (OtherException name)
         \<longrightarrow> main s a = ([], Inl (OtherException name)))"
  by (auto simp: main_def try_block_def split: option.splits exn.splits)

text \<open>
  A \<^verbatim>\<open>UserNotificationException\<close> from \<^verbatim>\<open>setup_logger()\<close> gives 1, whatever
  \<^verbatim>\<open>app()\<close> would do; one from \<^verbatim>\<open>app()\<close> gives 1; another exception from either
  call leaves \<^verbatim>\<open>main\<close>; no exception gives 0.
\<close>

theorem main_exit_codes_witness:
  "main (Some (UserNotificationException ''bad log'')) None = ([''bad log''], Inr 1)
   \<and> main (Some (UserNotificationException ''bad log'')) (Some (OtherException ''SystemExit''))
      = ([''bad log''], Inr 1)
   \<and> main None (Some (UserNotificationException ''no display'')) = ([''no display''], Inr 1)
   \<and> main (Some (OtherException ''OSError'')) (Some (UserNotificationException ''no display''))
      = ([], Inl (OtherException ''OSError''))
   \<and> main None (Some (OtherException ''SystemExit''))
      = ([], Inl (OtherException ''SystemExit''))
   \<and> main None None = ([], Inr 0)"
  using main_exit_codes [of "Some (UserNotificationException ''bad log'')" None]
    main_exit_codes [of "Some (UserNotificationException ''bad log'')"
                         "Some (OtherException ''SystemExit'')"]
    main_exit_codes [of None "Some (UserNotificationException ''no display'')"]
    main_exit_codes [of "Some (OtherException ''OSError'')"
                         "Some (UserNotificationException ''no display'')"]
    main_exit_codes [of None "Some (OtherException ''SystemExit'')"]
  by simp

text \<open>
  Claim C8. The expiration step changes the field \<open>clicks\<close> and nothing else: the new
  state is the old one with \<open>clicks\<close> replaced, so \<open>click_count\<close>, \<open>running\<close>,
  \<open>width\<close>, \<open>height\<close> and \<open>circle_lifetime\<close> are as before.
\<close>

theorem update_circles_frame:
  "update_circles now g = g\<lparr>clicks := clicks (update_circles now g)\<rparr>
   \<and> click_count (update_circles now g) = click_count g
   \<and> running (update_circles now g) = running g
   \<and> width (update_circles now g) = width g
   \<and> height (update_circles now g) = height g
   \<and> circle_lifetime (update_circles now g) = circle_lifetime g"
  by (simp add: update_circles_def)

text \<open>
  Claim C9. In every state reached from an initial state by event-handling,
  expiration and draw steps, in any order, \<open>clicks\<close> has at most \<open>click_count\<close>
  elements.
\<close>

theorem clicks_at_most_click_count:
  "int (length (clicks (apply_steps ss (MyGame_init w h lifetime :: 't::{minus,ord} my_game))))
     \<le> click_count (apply_steps ss (MyGame_init w h lifetime :: 't my_game))"
  by (rule length_le_count_steps) (simp add: MyGame_init_def)


end
